theory Spec2Isabelle
  imports Main
begin

section \<open>Classes, instances and reflected metadata\<close>

text \<open>
  A JavaScript class (constructor function) is compared by identity and carries a
  \<open>name\<close> property.  Two distinct classes may share a name, so the identity is kept
  apart from the name.  Request types, notification types and handler types are all
  classes.
\<close>

datatype jsclass = Class (class_id: nat) (class_name: string)

text \<open>
  An object created by \<open>new C(...)\<close>: \<open>ctor\<close> is what \<open>x.constructor\<close> evaluates to, the
  dispatch key of requests and notifications.
\<close>

record 'p obj =
  ctor :: jsclass
  props :: 'p

text \<open>
  The side table of \<open>reflect-metadata\<close>: for a target class, a value per metadata key.
  (The handler classes have no decorated superclass, so the prototype walk of
  \<open>Reflect.getMetadata\<close> is not modelled.)
\<close>

type_synonym metadata = "jsclass \<Rightarrow> string \<rightharpoonup> jsclass"

definition defineMetadata :: "string \<Rightarrow> jsclass \<Rightarrow> jsclass \<Rightarrow> metadata \<Rightarrow> metadata" where
  "defineMetadata key v target md = md(target := (md target)(key \<mapsto> v))"

definition getMetadata :: "string \<Rightarrow> jsclass \<Rightarrow> metadata \<Rightarrow> jsclass option" where
  "getMetadata key target md = md target key"

definition REQUEST_HANDLER_METADATA_KEY :: string where
  "REQUEST_HANDLER_METADATA_KEY = ''RequestHandlerMetadata''"

definition NOTIFICATION_HANDLER_METADATA_KEY :: string where
  "NOTIFICATION_HANDLER_METADATA_KEY = ''NotificationHandlerMetadata''"

text \<open>The two class decorators, applied to a target class.\<close>

definition RequestHandler :: "jsclass \<Rightarrow> jsclass \<Rightarrow> metadata \<Rightarrow> metadata" where
  "RequestHandler request target md =
     defineMetadata REQUEST_HANDLER_METADATA_KEY request target md"

definition NotificationHandler :: "jsclass \<Rightarrow> jsclass \<Rightarrow> metadata \<Rightarrow> metadata" where
  "NotificationHandler notification target md =
     defineMetadata NOTIFICATION_HANDLER_METADATA_KEY notification target md"

definition no_metadata :: metadata where
  "no_metadata = (\<lambda>target. Map.empty)"

section \<open>The registry builder \<open>provideMediator\<close>\<close>

type_synonym request_map = "jsclass \<rightharpoonup> jsclass"
type_synonym notification_map = "jsclass \<rightharpoonup> jsclass list"

text \<open>
  The body of the \<open>handlers.forEach\<close> callback, on the pair of maps it mutates.  Both
  metadata keys are read, one after the other, for every handler.  A metadata value is a
  class, hence truthy whenever it is present.
\<close>

definition registerHandler ::
  "metadata \<Rightarrow> request_map \<times> notification_map \<Rightarrow> jsclass \<Rightarrow> request_map \<times> notification_map"
where
  "registerHandler md maps handler =
     (let handlerMap = fst maps;
          notificationHandlerMap = snd maps;
          handlerMap' =
            (case getMetadata REQUEST_HANDLER_METADATA_KEY handler md of
               Some request \<Rightarrow> handlerMap(request \<mapsto> handler)
             | None \<Rightarrow> handlerMap);
          notificationHandlerMap' =
            (case getMetadata NOTIFICATION_HANDLER_METADATA_KEY handler md of
               Some notification \<Rightarrow>
                 (let existing = (case notificationHandlerMap notification of
                                    Some l \<Rightarrow> l | None \<Rightarrow> [])
                  in notificationHandlerMap(notification \<mapsto> existing @ [handler]))
             | None \<Rightarrow> notificationHandlerMap)
      in (handlerMap', notificationHandlerMap'))"

definition buildMaps :: "metadata \<Rightarrow> jsclass list \<Rightarrow> request_map \<times> notification_map" where
  "buildMaps md handlers = foldl (registerHandler md) (Map.empty, Map.empty) handlers"

datatype provider =
    Mediator
  | HandlerClass jsclass
  | ProvideRequestHandlerMap request_map
  | ProvideNotificationHandlerMap notification_map

definition provideMediator :: "metadata \<Rightarrow> jsclass list \<Rightarrow> provider list" where
  "provideMediator md handlers =
     (let maps = buildMaps md handlers
      in [Mediator] @ map HandlerClass handlers @
         [ProvideRequestHandlerMap (fst maps), ProvideNotificationHandlerMap (snd maps)])"

text \<open>
  What the dependency-injection container hands out for the two map tokens: the
  \<open>useValue\<close> of the provider registered for the token (the provider list holds exactly
  one per token).
\<close>

fun useValue_REQUEST_HANDLER_MAP :: "provider list \<Rightarrow> request_map" where
  "useValue_REQUEST_HANDLER_MAP [] = Map.empty"
| "useValue_REQUEST_HANDLER_MAP (ProvideRequestHandlerMap m # ps) = m"
| "useValue_REQUEST_HANDLER_MAP (p # ps) = useValue_REQUEST_HANDLER_MAP ps"

fun useValue_NOTIFICATION_HANDLER_MAP :: "provider list \<Rightarrow> notification_map" where
  "useValue_NOTIFICATION_HANDLER_MAP [] = Map.empty"
| "useValue_NOTIFICATION_HANDLER_MAP (ProvideNotificationHandlerMap m # ps) = m"
| "useValue_NOTIFICATION_HANDLER_MAP (p # ps) = useValue_NOTIFICATION_HANDLER_MAP ps"

text \<open>The classes of a list that declare a given request (notification) type, in order.\<close>

definition request_declarers :: "metadata \<Rightarrow> jsclass \<Rightarrow> jsclass list \<Rightarrow> jsclass list" where
  "request_declarers md r handlers =
     filter (\<lambda>h. getMetadata REQUEST_HANDLER_METADATA_KEY h md = Some r) handlers"

definition notification_declarers :: "metadata \<Rightarrow> jsclass \<Rightarrow> jsclass list \<Rightarrow> jsclass list" where
  "notification_declarers md n handlers =
     filter (\<lambda>h. getMetadata NOTIFICATION_HANDLER_METADATA_KEY h md = Some n) handlers"

section \<open>Results of handlers: immediate values, promises, observables\<close>

text \<open>
  A promise is described by how it settles; an observable by the values it emits to a
  subscriber and by how it ends.  \<open>'e\<close> is the type of what user code throws or rejects
  with.
\<close>

datatype ('e, 'v) promise = Resolved 'v | Rejected 'e | Pending

datatype 'e completion = Completes | Errors 'e | Never

datatype ('e, 'v) observable = Observable (emitted: "'v list") (ending: "'e completion")

text \<open>
  What \<open>handler.handle(request)\<close> evaluates to at run time: an observable, a promise, or
  any other value.
\<close>

datatype ('e, 'v) response =
    Value 'v
  | PromiseOf "('e, 'v) promise"
  | ObservableOf "('e, 'v) observable"

fun isObservable :: "('e, 'v) response \<Rightarrow> bool" where
  "isObservable (ObservableOf ob) = True"
| "isObservable r = False"

fun instanceof_Promise :: "('e, 'v) response \<Rightarrow> bool" where
  "instanceof_Promise (PromiseOf p) = True"
| "instanceof_Promise r = False"

text \<open>The errors a caller of the mediator can observe.\<close>

datatype 'e failure =
    Error string  \<comment> \<open>\<open>new Error(message)\<close>, created by the mediator itself\<close>
  | EmptyError    \<comment> \<open>of \<open>firstValueFrom\<close>: the sequence completed without a value\<close>
  | TypeError     \<comment> \<open>of \<open>firstValueFrom\<close>: the argument has no \<open>subscribe\<close>\<close>
  | Raised 'e     \<comment> \<open>thrown by a handler, a behavior or the injector; passed on as it is\<close>

text \<open>The three RxJS functions the mediator calls: \<open>of\<close>, \<open>from\<close> and \<open>firstValueFrom\<close>.\<close>

definition of_rx :: "'v \<Rightarrow> ('e, 'v) observable" where
  "of_rx v = Observable [v] Completes"

fun from_rx :: "('e, 'v) promise \<Rightarrow> ('e, 'v) observable" where
  "from_rx (Resolved v) = Observable [v] Completes"
| "from_rx (Rejected e) = Observable [] (Errors e)"
| "from_rx Pending = Observable [] Never"

fun firstValueFrom :: "('e, 'v) response \<Rightarrow> ('e failure, 'v) promise" where
  "firstValueFrom (ObservableOf (Observable (v # vs) c)) = Resolved v"
| "firstValueFrom (ObservableOf (Observable [] Completes)) = Rejected EmptyError"
| "firstValueFrom (ObservableOf (Observable [] (Errors e))) = Rejected (Raised e)"
| "firstValueFrom (ObservableOf (Observable [] Never)) = Pending"
| "firstValueFrom r = Rejected TypeError"

section \<open>Effectful code\<close>

text \<open>
  User code (handlers, behaviors, the injector) reads and changes a state \<open>'s\<close> and
  either returns or throws.  A zero-argument closure \<open>() => T\<close> is such a computation:
  calling it runs it on the current state.
\<close>

type_synonym ('s, 'e, 'a) comp = "'s \<Rightarrow> ('e + 'a) \<times> 's"

type_synonym ('s, 'e, 'p, 'v) handler = "'p obj \<Rightarrow> ('s, 'e, ('e, 'v) response) comp"

type_synonym ('s, 'e, 'p, 'v) behavior =
  "'p obj \<Rightarrow> ('s, 'e, ('e, 'v) response) comp \<Rightarrow> ('s, 'e, ('e, 'v) response) comp"

text \<open>An exception of user code as the mediator's caller sees it.\<close>

fun raised :: "('e + 'a) \<times> 's \<Rightarrow> ('e failure + 'a) \<times> 's" where
  "raised (Inl e, s) = (Inl (Raised e), s)"
| "raised (Inr a, s) = (Inr a, s)"

section \<open>The mediator\<close>

text \<open>
  The constructor's four injected fields.  \<open>pipelineBehaviors\<close> is optional, hence
  \<open>None\<close> (null) when nothing is provided for the token.  \<open>injector m c\<close> is
  \<open>this.injector.get(c)\<close>: it yields the instance whose \<open>handle\<close> method is the returned
  function, and may itself run code or throw.  \<open>provideMediator\<close> lists every handler
  class it is given among the providers, so an injector built from its result resolves
  every registered handler class; the properties below that speak of a registered
  handler take this resolution to return.
\<close>

record ('s, 'e, 'p, 'v) mediator =
  requestHandlerMap :: request_map
  notificationHandlerMap :: notification_map
  pipelineBehaviors :: "('s, 'e, 'p, 'v) behavior list option"
  injector :: "jsclass \<Rightarrow> ('s, 'e, ('s, 'e, 'p, 'v) handler) comp"

definition getHandler ::
  "('s, 'e, 'p, 'v) mediator \<Rightarrow> 'p obj \<Rightarrow> 's \<Rightarrow> ('e failure + ('s, 'e, 'p, 'v) handler) \<times> 's"
where
  "getHandler m request s =
     (case requestHandlerMap m (ctor request) of
        None \<Rightarrow> (Inl (Error (''No handler found for request: '' @ class_name (ctor request))), s)
      | Some handlerType \<Rightarrow> raised (injector m handlerType s))"

text \<open>\<open>this.pipelineBehaviors || []\<close>\<close>

definition behaviors_of :: "('s, 'e, 'p, 'v) mediator \<Rightarrow> ('s, 'e, 'p, 'v) behavior list" where
  "behaviors_of m = (case pipelineBehaviors m of None \<Rightarrow> [] | Some bs \<Rightarrow> bs)"

text \<open>
  \<open>behaviors.reduceRight((next, behavior) => () => behavior.handle(request, next), handle)\<close>:
  the accumulator starts as \<open>handle\<close> and the behaviors are visited from the last to the
  first.
\<close>

definition pipeline ::
  "'p obj \<Rightarrow> ('s, 'e, 'p, 'v) behavior list \<Rightarrow> ('s, 'e, ('e, 'v) response) comp
     \<Rightarrow> ('s, 'e, ('e, 'v) response) comp"
where
  "pipeline request behaviors handle =
     foldr (\<lambda>behavior next. behavior request next) behaviors handle"

text \<open>
  The closure \<open>handle\<close> of \<open>send\<close>, which turns every result into an observable: an
  observable is returned as it is, a promise goes through \<open>from\<close>, anything else
  through \<open>of\<close>.
\<close>

fun normalize :: "('e, 'v) response \<Rightarrow> ('e, 'v) response" where
  "normalize (ObservableOf ob) = ObservableOf ob"
| "normalize (PromiseOf p) = ObservableOf (from_rx p)"
| "normalize (Value v) = ObservableOf (of_rx v)"

definition send_handle ::
  "('s, 'e, 'p, 'v) handler \<Rightarrow> 'p obj \<Rightarrow> ('s, 'e, ('e, 'v) response) comp"
where
  "send_handle handler request s =
     (case handler request s of
        (Inl e, s') \<Rightarrow> (Inl e, s')
      | (Inr result, s') \<Rightarrow> (Inr (normalize result), s'))"

definition send ::
  "('s, 'e, 'p, 'v) mediator \<Rightarrow> 'p obj \<Rightarrow> 's \<Rightarrow> ('e failure + ('e, 'v) response) \<times> 's"
where
  "send m request s =
     (case getHandler m request s of
        (Inl err, s0) \<Rightarrow> (Inl err, s0)
      | (Inr handler, s0) \<Rightarrow>
          raised (pipeline request (behaviors_of m) (send_handle handler request) s0))"

text \<open>
  \<open>sendAsync\<close> is an \<open>async\<close> method: its body runs at once, up to the \<open>await\<close>, and
  whatever the body throws rejects the promise that the call returns.  The call itself
  never throws, so the result is always \<open>Inr\<close>.
\<close>

definition sendAsync ::
  "('s, 'e, 'p, 'v) mediator \<Rightarrow> 'p obj \<Rightarrow> 's
     \<Rightarrow> ('e failure + ('e failure, 'v) promise) \<times> 's"
where
  "sendAsync m request s =
     (case send m request s of
        (Inl err, s') \<Rightarrow> (Inr (Rejected err), s')
      | (Inr result, s') \<Rightarrow> (Inr (firstValueFrom result), s'))"

definition sendSimple ::
  "('s, 'e, 'p, 'v) mediator \<Rightarrow> 'p obj \<Rightarrow> 's \<Rightarrow> ('e failure + ('e, 'v) response) \<times> 's"
where
  "sendSimple m request s =
     (case getHandler m request s of
        (Inl err, s0) \<Rightarrow> (Inl err, s0)
      | (Inr handler, s0) \<Rightarrow>
          (case pipeline request (behaviors_of m) (handler request) s0 of
             (Inl e, s1) \<Rightarrow> (Inl (Raised e), s1)
           | (Inr result, s1) \<Rightarrow>
               (if isObservable result \<or> instanceof_Promise result
                then (Inl (Error ''sendSimple can only be used with synchronous handlers''), s1)
                else (Inr result, s1))))"

text \<open>
  The \<open>handlerTypes.forEach\<close> loop of \<open>publish\<close>: resolve, call \<open>handle\<close>, drop what it
  returns, go on.  An exception leaves the loop.
\<close>

fun publish_forEach ::
  "('s, 'e, 'p, 'v) mediator \<Rightarrow> 'p obj \<Rightarrow> jsclass list \<Rightarrow> ('s, 'e, unit) comp"
where
  "publish_forEach m notification [] s = (Inr (), s)"
| "publish_forEach m notification (handlerType # rest) s =
     (case injector m handlerType s of
        (Inl e, s1) \<Rightarrow> (Inl e, s1)
      | (Inr handler, s1) \<Rightarrow>
          (case handler notification s1 of
             (Inl e, s2) \<Rightarrow> (Inl e, s2)
           | (Inr result, s2) \<Rightarrow> publish_forEach m notification rest s2))"

definition publish :: "('s, 'e, 'p, 'v) mediator \<Rightarrow> 'p obj \<Rightarrow> ('s, 'e, unit) comp" where
  "publish m notification s =
     (case notificationHandlerMap m (ctor notification) of
        None \<Rightarrow> (Inr (), s)
      | Some handlerTypes \<Rightarrow> publish_forEach m notification handlerTypes s)"

section \<open>Behaviors with logic before and after the continuation\<close>

text \<open>
  The shape of \<open>behavior1\<close> and \<open>behavior2\<close> of the test suite: some logic, the call of
  \<open>next()\<close>, some more logic, and the result of \<open>next()\<close> returned.  When \<open>next()\<close>
  throws, the logic after it does not run.
\<close>

definition around :: "('s \<Rightarrow> 's) \<Rightarrow> ('s \<Rightarrow> 's) \<Rightarrow> ('s, 'e, 'p, 'v) behavior" where
  "around pre post request next s =
     (case next (pre s) of
        (Inl e, s') \<Rightarrow> (Inl e, s')
      | (Inr result, s') \<Rightarrow> (Inr result, post s'))"

text \<open>
  A behavior that returns its continuation's result: on the given request it runs logic
  of its own (\<open>pre\<close>), calls the continuation, and whenever that call returns a result it
  returns this very result, after more logic of its own (\<open>post\<close>, which may look at the
  state the behavior was entered in, at the result, and at the state the continuation
  left).  Nothing is asked of the behavior for a continuation that throws.
\<close>

definition returns_continuation_result ::
  "('s, 'e, 'p, 'v) behavior \<Rightarrow> 'p obj \<Rightarrow> ('s \<Rightarrow> 's)
     \<Rightarrow> ('s \<Rightarrow> ('e, 'v) response \<Rightarrow> 's \<Rightarrow> 's) \<Rightarrow> bool"
where
  "returns_continuation_result b request pre post \<longleftrightarrow>
     (\<forall>next t r t'. next (pre t) = (Inr r, t') \<longrightarrow> b request next t = (Inr r, post t r t'))"

text \<open>
  A list of behaviors, each of which returns its continuation's result, with the logic
  \<open>(pre, post)\<close> of each.
\<close>

definition pass_through ::
  "('s, 'e, 'p, 'v) behavior list \<Rightarrow> 'p obj
     \<Rightarrow> (('s \<Rightarrow> 's) \<times> ('s \<Rightarrow> ('e, 'v) response \<Rightarrow> 's \<Rightarrow> 's)) list \<Rightarrow> bool"
where
  "pass_through behaviors request pqs =
     list_all2 (\<lambda>b pq. returns_continuation_result b request (fst pq) (snd pq)) behaviors pqs"

text \<open>
  The state in which the innermost continuation is called when the chain is entered in
  state \<open>t\<close>, and the state in which the chain returns when the innermost continuation
  has returned \<open>r\<close> in state \<open>t'\<close>: the logic before runs from the first behavior to the
  last, the logic after from the last to the first.
\<close>

fun logic_before :: "(('s \<Rightarrow> 's) \<times> ('s \<Rightarrow> 'r \<Rightarrow> 's \<Rightarrow> 's)) list \<Rightarrow> 's \<Rightarrow> 's" where
  "logic_before [] t = t"
| "logic_before (pq # pqs) t = logic_before pqs (fst pq t)"

fun logic_after ::
  "(('s \<Rightarrow> 's) \<times> ('s \<Rightarrow> 'r \<Rightarrow> 's \<Rightarrow> 's)) list \<Rightarrow> 's \<Rightarrow> 'r \<Rightarrow> 's \<Rightarrow> 's"
where
  "logic_after [] t r t' = t'"
| "logic_after (pq # pqs) t r t' = snd pq t r (logic_after pqs (fst pq t) r t')"

section \<open>The fixtures of the test suites\<close>

text \<open>
  The classes of \<open>mediator.providers.spec.ts\<close> and \<open>mediator.service.spec.ts\<close>, with the
  metadata that the first suite attaches in \<open>beforeAll\<close>.  \<open>SecondTestRequestHandler\<close>
  (a second handler for \<open>TestRequest\<close>) and \<open>AuditHandler\<close> (decorated with both
  decorators) are added to exercise duplicate and double registration.
\<close>

definition TestRequest :: jsclass where "TestRequest = Class 1 ''TestRequest''"
definition AnotherTestRequest :: jsclass where "AnotherTestRequest = Class 2 ''AnotherTestRequest''"
definition TestNotification :: jsclass where "TestNotification = Class 3 ''TestNotification''"
definition AnotherTestNotification :: jsclass where
  "AnotherTestNotification = Class 4 ''AnotherTestNotification''"
definition TestRequestHandler :: jsclass where
  "TestRequestHandler = Class 5 ''TestRequestHandler''"
definition AnotherTestRequestHandler :: jsclass where
  "AnotherTestRequestHandler = Class 6 ''AnotherTestRequestHandler''"
definition TestNotificationHandler :: jsclass where
  "TestNotificationHandler = Class 7 ''TestNotificationHandler''"
definition AnotherTestNotificationHandler :: jsclass where
  "AnotherTestNotificationHandler = Class 8 ''AnotherTestNotificationHandler''"
definition YetAnotherNotificationHandler :: jsclass where
  "YetAnotherNotificationHandler = Class 9 ''YetAnotherNotificationHandler''"
definition NonHandlerClass :: jsclass where "NonHandlerClass = Class 10 ''NonHandlerClass''"
definition SecondTestRequestHandler :: jsclass where
  "SecondTestRequestHandler = Class 11 ''SecondTestRequestHandler''"
definition AuditHandler :: jsclass where "AuditHandler = Class 12 ''AuditHandler''"

definition suite_metadata :: metadata where
  "suite_metadata =
     (RequestHandler TestRequest TestRequestHandler
     (RequestHandler AnotherTestRequest AnotherTestRequestHandler
     (NotificationHandler TestNotification TestNotificationHandler
     (NotificationHandler TestNotification AnotherTestNotificationHandler
     (NotificationHandler AnotherTestNotification YetAnotherNotificationHandler
     (RequestHandler TestRequest SecondTestRequestHandler
     (RequestHandler AnotherTestRequest AuditHandler
     (NotificationHandler TestNotification AuditHandler no_metadata))))))))"

text \<open>
  The fixtures of \<open>mediator.service.spec.ts\<close>.  The state is a call log (the suite's
  \<open>callOrder\<close>), to which the injector and the handlers append as well, so that every
  resolution and every invocation can be read off the final state.
\<close>

definition SyncRequest :: jsclass where "SyncRequest = Class 21 ''SyncRequest''"
definition AsyncObservableRequest :: jsclass where
  "AsyncObservableRequest = Class 22 ''AsyncObservableRequest''"
definition AsyncPromiseRequest :: jsclass where
  "AsyncPromiseRequest = Class 23 ''AsyncPromiseRequest''"
definition UnhandledRequest :: jsclass where "UnhandledRequest = Class 24 ''UnhandledRequest''"
definition AnotherNotification :: jsclass where
  "AnotherNotification = Class 25 ''AnotherNotification''"
definition SyncRequestHandler :: jsclass where
  "SyncRequestHandler = Class 26 ''SyncRequestHandler''"
definition AsyncObservableRequestHandler :: jsclass where
  "AsyncObservableRequestHandler = Class 27 ''AsyncObservableRequestHandler''"
definition AsyncPromiseRequestHandler :: jsclass where
  "AsyncPromiseRequestHandler = Class 28 ''AsyncPromiseRequestHandler''"
definition FailingNotificationHandler :: jsclass where
  "FailingNotificationHandler = Class 29 ''FailingNotificationHandler''"

definition new_obj :: "jsclass \<Rightarrow> unit obj" where
  "new_obj c = \<lparr>ctor = c, props = ()\<rparr>"

type_synonym suite_handler = "(string list, string, unit, string) handler"
type_synonym suite_behavior = "(string list, string, unit, string) behavior"

definition SyncRequestHandler_handle :: suite_handler where
  "SyncRequestHandler_handle request callOrder =
     (Inr (Value ''sync response''), callOrder @ [''handler called''])"

definition AsyncObservableRequestHandler_handle :: suite_handler where
  "AsyncObservableRequestHandler_handle request callOrder =
     (Inr (ObservableOf (of_rx ''async observable response'')),
      callOrder @ [''handler called''])"

definition AsyncPromiseRequestHandler_handle :: suite_handler where
  "AsyncPromiseRequestHandler_handle request callOrder =
     (Inr (PromiseOf (Resolved ''async promise response'')), callOrder @ [''handler called''])"

definition TestNotificationHandler_handle :: suite_handler where
  "TestNotificationHandler_handle notification callOrder =
     (Inr (Value ''undefined''), callOrder @ [''TestNotificationHandler.handle''])"

definition AnotherTestNotificationHandler_handle :: suite_handler where
  "AnotherTestNotificationHandler_handle notification callOrder =
     (Inr (Value ''undefined''), callOrder @ [''AnotherTestNotificationHandler.handle''])"

definition FailingNotificationHandler_handle :: suite_handler where
  "FailingNotificationHandler_handle notification callOrder =
     (Inl ''Notification Error'', callOrder @ [''FailingNotificationHandler.handle''])"

definition TestBed_get :: "jsclass \<Rightarrow> (string list, string, suite_handler) comp" where
  "TestBed_get c callOrder =
     (if c = SyncRequestHandler
        then (Inr SyncRequestHandler_handle, callOrder @ [''get SyncRequestHandler''])
      else if c = AsyncObservableRequestHandler
        then (Inr AsyncObservableRequestHandler_handle,
              callOrder @ [''get AsyncObservableRequestHandler''])
      else if c = AsyncPromiseRequestHandler
        then (Inr AsyncPromiseRequestHandler_handle,
              callOrder @ [''get AsyncPromiseRequestHandler''])
      else if c = TestNotificationHandler
        then (Inr TestNotificationHandler_handle, callOrder @ [''get TestNotificationHandler''])
      else if c = AnotherTestNotificationHandler
        then (Inr AnotherTestNotificationHandler_handle,
              callOrder @ [''get AnotherTestNotificationHandler''])
      else if c = FailingNotificationHandler
        then (Inr FailingNotificationHandler_handle,
              callOrder @ [''get FailingNotificationHandler''])
      else (Inl ''NullInjectorError'', callOrder))"

definition behavior1 :: suite_behavior where
  "behavior1 = around (\<lambda>callOrder. callOrder @ [''behavior1 start''])
                      (\<lambda>callOrder. callOrder @ [''behavior1 end''])"

definition behavior2 :: suite_behavior where
  "behavior2 = around (\<lambda>callOrder. callOrder @ [''behavior2 start''])
                      (\<lambda>callOrder. callOrder @ [''behavior2 end''])"

text \<open>
  Three behaviors that do more than run logic around \<open>next()\<close>: one answers from a cache
  without calling \<open>next()\<close>; one calls \<open>next()\<close> and replaces every value of the result;
  one calls \<open>next()\<close> and returns a placeholder when the result is not there yet.
\<close>

definition cachingBehavior :: suite_behavior where
  "cachingBehavior request next callOrder =
     (Inr (Value ''cached response''), callOrder @ [''cache hit''])"

fun redact :: "(string, string) response \<Rightarrow> (string, string) response" where
  "redact (Value v) = Value ''redacted''"
| "redact (PromiseOf (Resolved v)) = PromiseOf (Resolved ''redacted'')"
| "redact (PromiseOf p) = PromiseOf p"
| "redact (ObservableOf (Observable vs c)) =
     ObservableOf (Observable (map (\<lambda>v. ''redacted'') vs) c)"

definition redactingBehavior :: suite_behavior where
  "redactingBehavior request next callOrder =
     (case next callOrder of
        (Inl e, callOrder') \<Rightarrow> (Inl e, callOrder')
      | (Inr result, callOrder') \<Rightarrow> (Inr (redact result), callOrder'))"

definition placeholderBehavior :: suite_behavior where
  "placeholderBehavior request next callOrder =
     (case next callOrder of
        (Inl e, callOrder') \<Rightarrow> (Inl e, callOrder')
      | (Inr result, callOrder') \<Rightarrow>
          (if isObservable result \<or> instanceof_Promise result
           then (Inr (Value ''loading''), callOrder')
           else (Inr result, callOrder')))"

text \<open>
  The \<open>LoggingBehavior\<close> of the README, writing to the call log instead of the console:
  it names the request's class before and after \<open>next()\<close> and returns the result of
  \<open>next()\<close>.
\<close>

definition LoggingBehavior :: suite_behavior where
  "LoggingBehavior request next callOrder =
     (case next (callOrder @
                   [''[LoggingBehavior] Handling request: '' @ class_name (ctor request)]) of
        (Inl e, callOrder') \<Rightarrow> (Inl e, callOrder')
      | (Inr result, callOrder') \<Rightarrow>
          (Inr result,
           callOrder' @
             [''[LoggingBehavior] Finished handling request: '' @ class_name (ctor request)]))"

text \<open>The two pieces of logic of \<open>LoggingBehavior\<close>, each on its own.\<close>

definition LoggingBehavior_before :: "unit obj \<Rightarrow> string list \<Rightarrow> string list" where
  "LoggingBehavior_before request callOrder =
     callOrder @ [''[LoggingBehavior] Handling request: '' @ class_name (ctor request)]"

definition LoggingBehavior_after ::
  "unit obj \<Rightarrow> string list \<Rightarrow> (string, string) response \<Rightarrow> string list \<Rightarrow> string list"
where
  "LoggingBehavior_after request entered result callOrder =
     callOrder @ [''[LoggingBehavior] Finished handling request: '' @ class_name (ctor request)]"

text \<open>
  A behavior that puts the request aside and hands back a promise for its response, without
  calling \<open>next()\<close>.
\<close>

definition queueingBehavior :: suite_behavior where
  "queueingBehavior request next callOrder = (Inr (PromiseOf Pending), callOrder @ [''queued''])"

definition suite_mediator ::
  "suite_behavior list \<Rightarrow> (string list, string, unit, string) mediator"
where
  "suite_mediator behaviors =
     \<lparr> requestHandlerMap =
         [SyncRequest \<mapsto> SyncRequestHandler,
          AsyncObservableRequest \<mapsto> AsyncObservableRequestHandler,
          AsyncPromiseRequest \<mapsto> AsyncPromiseRequestHandler],
       notificationHandlerMap =
         [TestNotification \<mapsto> [TestNotificationHandler, AnotherTestNotificationHandler],
          AnotherTestNotification \<mapsto>
            [TestNotificationHandler, FailingNotificationHandler,
             AnotherTestNotificationHandler]],
       pipelineBehaviors = Some behaviors,
       injector = TestBed_get \<rparr>"

section \<open>Properties of the registry builder\<close>

lemma useValue_request_skip:
  "useValue_REQUEST_HANDLER_MAP (map HandlerClass hs @ ps) = useValue_REQUEST_HANDLER_MAP ps"
  by (induction hs) simp_all

lemma useValue_notification_skip:
  "useValue_NOTIFICATION_HANDLER_MAP (map HandlerClass hs @ ps) =
   useValue_NOTIFICATION_HANDLER_MAP ps"
  by (induction hs) simp_all

lemma useValue_request_provideMediator:
  "useValue_REQUEST_HANDLER_MAP (provideMediator md hs) = fst (buildMaps md hs)"
  by (simp add: provideMediator_def Let_def useValue_request_skip)

lemma useValue_notification_provideMediator:
  "useValue_NOTIFICATION_HANDLER_MAP (provideMediator md hs) = snd (buildMaps md hs)"
  by (simp add: provideMediator_def Let_def useValue_notification_skip)

lemma fold_request_map:
  "fst (foldl (registerHandler md) (hm, nm) hs) r =
     (case request_declarers md r hs of [] \<Rightarrow> hm r | d # ds \<Rightarrow> Some (last (d # ds)))"
proof (induction hs rule: rev_induct)
  case Nil
  show ?case by (simp add: request_declarers_def)
next
  case (snoc h hs)
  show ?case
  proof (cases "getMetadata REQUEST_HANDLER_METADATA_KEY h md")
    case None
    with snoc show ?thesis
      by (simp add: request_declarers_def registerHandler_def Let_def)
  next
    case (Some r')
    with snoc show ?thesis
      by (cases "r' = r")
         (simp_all add: request_declarers_def registerHandler_def Let_def split: list.splits)
  qed
qed

lemma fold_notification_map:
  "snd (foldl (registerHandler md) (hm, nm) hs) n =
     (case notification_declarers md n hs of
        [] \<Rightarrow> nm n
      | d # ds \<Rightarrow> Some ((case nm n of Some l \<Rightarrow> l | None \<Rightarrow> []) @ d # ds))"
proof (induction hs rule: rev_induct)
  case Nil
  show ?case by (simp add: notification_declarers_def)
next
  case (snoc h hs)
  show ?case
  proof (cases "getMetadata NOTIFICATION_HANDLER_METADATA_KEY h md")
    case None
    with snoc show ?thesis
      by (simp add: notification_declarers_def registerHandler_def Let_def)
  next
    case (Some n')
    with snoc show ?thesis
      by (cases "n' = n")
         (simp_all add: notification_declarers_def registerHandler_def Let_def
            split: list.splits option.splits)
  qed
qed

lemma request_map_lookup:
  "fst (buildMaps md hs) r =
     (case request_declarers md r hs of [] \<Rightarrow> None | d # ds \<Rightarrow> Some (last (d # ds)))"
  by (simp add: buildMaps_def fold_request_map)

lemma notification_map_lookup:
  "snd (buildMaps md hs) n =
     (case notification_declarers md n hs of [] \<Rightarrow> None | d # ds \<Rightarrow> Some (d # ds))"
  by (simp add: buildMaps_def fold_notification_map split: list.splits)

lemmas fixture_classes =
  TestRequest_def AnotherTestRequest_def TestNotification_def AnotherTestNotification_def
  TestRequestHandler_def AnotherTestRequestHandler_def TestNotificationHandler_def
  AnotherTestNotificationHandler_def YetAnotherNotificationHandler_def NonHandlerClass_def
  SecondTestRequestHandler_def AuditHandler_def

lemmas metadata_defs =
  suite_metadata_def RequestHandler_def NotificationHandler_def defineMetadata_def
  getMetadata_def no_metadata_def REQUEST_HANDLER_METADATA_KEY_def
  NOTIFICATION_HANDLER_METADATA_KEY_def

lemma suite_request_metadata:
  "getMetadata REQUEST_HANDLER_METADATA_KEY TestRequestHandler suite_metadata = Some TestRequest"
  "getMetadata REQUEST_HANDLER_METADATA_KEY AnotherTestRequestHandler suite_metadata
     = Some AnotherTestRequest"
  "getMetadata REQUEST_HANDLER_METADATA_KEY TestNotificationHandler suite_metadata = None"
  "getMetadata REQUEST_HANDLER_METADATA_KEY AnotherTestNotificationHandler suite_metadata = None"
  "getMetadata REQUEST_HANDLER_METADATA_KEY YetAnotherNotificationHandler suite_metadata = None"
  "getMetadata REQUEST_HANDLER_METADATA_KEY NonHandlerClass suite_metadata = None"
  "getMetadata REQUEST_HANDLER_METADATA_KEY SecondTestRequestHandler suite_metadata
     = Some TestRequest"
  "getMetadata REQUEST_HANDLER_METADATA_KEY AuditHandler suite_metadata = Some AnotherTestRequest"
  by (simp_all add: metadata_defs fixture_classes)

lemma suite_notification_metadata:
  "getMetadata NOTIFICATION_HANDLER_METADATA_KEY TestRequestHandler suite_metadata = None"
  "getMetadata NOTIFICATION_HANDLER_METADATA_KEY AnotherTestRequestHandler suite_metadata = None"
  "getMetadata NOTIFICATION_HANDLER_METADATA_KEY TestNotificationHandler suite_metadata
     = Some TestNotification"
  "getMetadata NOTIFICATION_HANDLER_METADATA_KEY AnotherTestNotificationHandler suite_metadata
     = Some TestNotification"
  "getMetadata NOTIFICATION_HANDLER_METADATA_KEY YetAnotherNotificationHandler suite_metadata
     = Some AnotherTestNotification"
  "getMetadata NOTIFICATION_HANDLER_METADATA_KEY NonHandlerClass suite_metadata = None"
  "getMetadata NOTIFICATION_HANDLER_METADATA_KEY SecondTestRequestHandler suite_metadata = None"
  "getMetadata NOTIFICATION_HANDLER_METADATA_KEY AuditHandler suite_metadata
     = Some TestNotification"
  by (simp_all add: metadata_defs fixture_classes)

lemma request_map_last_declarer:
  assumes "getMetadata REQUEST_HANDLER_METADATA_KEY c md = Some r"
    and "list_all (\<lambda>d. getMetadata REQUEST_HANDLER_METADATA_KEY d md \<noteq> Some r) after"
  shows "fst (buildMaps md (before @ c # after)) r = Some c"
proof -
  have none: "request_declarers md r after = []"
    using assms(2) by (induction after) (simp_all add: request_declarers_def)
  have "request_declarers md r (before @ c # after) = request_declarers md r before @ [c]"
    using assms(1) none by (simp add: request_declarers_def)
  moreover have "(case ds @ [c] of [] \<Rightarrow> None | d # ds' \<Rightarrow> Some (last (d # ds'))) = Some c"
    for ds :: "jsclass list"
    by (cases ds) simp_all
  ultimately show ?thesis
    by (simp add: request_map_lookup)
qed

text \<open>
  C6.  When two handler classes of the input list declare the same request type, the
  request-handler map built by \<open>provideMediator\<close> binds that type to the later of the
  two: the handler registered last for a request type is the one the map holds.  (The
  list is \<open>before @ c1 # between @ c2 # after\<close>, with \<open>c2\<close> the last class that declares
  \<open>r\<close>; \<open>c1\<close> is any earlier class that declares it.)
\<close>

theorem duplicate_request_last_wins:
  assumes "getMetadata REQUEST_HANDLER_METADATA_KEY c1 md = Some r"
    and "getMetadata REQUEST_HANDLER_METADATA_KEY c2 md = Some r"
    and "list_all (\<lambda>c. getMetadata REQUEST_HANDLER_METADATA_KEY c md \<noteq> Some r) after"
  shows "useValue_REQUEST_HANDLER_MAP
           (provideMediator md (before @ c1 # between @ c2 # after)) r = Some c2"
  using request_map_last_declarer [OF assms(2) assms(3), of "before @ c1 # between"]
  by (simp add: useValue_request_provideMediator)

theorem duplicate_request_last_wins_witness:
  "getMetadata REQUEST_HANDLER_METADATA_KEY TestRequestHandler suite_metadata = Some TestRequest
   \<and> getMetadata REQUEST_HANDLER_METADATA_KEY SecondTestRequestHandler suite_metadata
       = Some TestRequest
   \<and> useValue_REQUEST_HANDLER_MAP
        (provideMediator suite_metadata
           [NonHandlerClass, TestRequestHandler, TestNotificationHandler,
            SecondTestRequestHandler, AnotherTestRequestHandler]) TestRequest
       = Some SecondTestRequestHandler"
  using duplicate_request_last_wins [of TestRequestHandler suite_metadata TestRequest
      SecondTestRequestHandler "[AnotherTestRequestHandler]" "[NonHandlerClass]"
      "[TestNotificationHandler]"]
  by (simp add: suite_request_metadata) (simp add: fixture_classes)

text \<open>
  C7.  Round trip of registration.  When no two classes of the input list declare the
  same request type, looking up a request type declared by a class of the list returns
  exactly that class, and looking up a notification type declared by a class of the list
  returns the list of exactly the classes that declare it, in input order
  (\<open>notification_declarers\<close> filters the input list, so it keeps the order and the
  repetitions of the input).
\<close>

theorem registration_round_trip:
  assumes "\<forall>c1 \<in> set handlers. \<forall>c2 \<in> set handlers.
             getMetadata REQUEST_HANDLER_METADATA_KEY c1 md \<noteq> None \<and>
             getMetadata REQUEST_HANDLER_METADATA_KEY c1 md
               = getMetadata REQUEST_HANDLER_METADATA_KEY c2 md
             \<longrightarrow> c1 = c2"
  shows "(\<forall>c \<in> set handlers. \<forall>r.
            getMetadata REQUEST_HANDLER_METADATA_KEY c md = Some r \<longrightarrow>
            useValue_REQUEST_HANDLER_MAP (provideMediator md handlers) r = Some c)
       \<and> (\<forall>c \<in> set handlers. \<forall>n.
            getMetadata NOTIFICATION_HANDLER_METADATA_KEY c md = Some n \<longrightarrow>
            useValue_NOTIFICATION_HANDLER_MAP (provideMediator md handlers) n
              = Some (notification_declarers md n handlers)
            \<and> c \<in> set (notification_declarers md n handlers))"
proof (intro conjI ballI allI impI)
  fix c r
  assume c: "c \<in> set handlers"
    and r: "getMetadata REQUEST_HANDLER_METADATA_KEY c md = Some r"
  have mem: "c \<in> set (request_declarers md r handlers)"
    using c r by (simp add: request_declarers_def)
  have only: "d = c" if "d \<in> set (request_declarers md r handlers)" for d
    using that assms c r by (auto simp: request_declarers_def)
  obtain d ds where ds: "request_declarers md r handlers = d # ds"
    using mem by (cases "request_declarers md r handlers") auto
  have "last (d # ds) \<in> set (request_declarers md r handlers)"
    unfolding ds by (rule last_in_set) simp
  then have "last (d # ds) = c" by (rule only)
  then show "useValue_REQUEST_HANDLER_MAP (provideMediator md handlers) r = Some c"
    using ds by (simp add: useValue_request_provideMediator request_map_lookup)
next
  fix c n
  assume c: "c \<in> set handlers"
    and n: "getMetadata NOTIFICATION_HANDLER_METADATA_KEY c md = Some n"
  then show "c \<in> set (notification_declarers md n handlers)"
    by (simp add: notification_declarers_def)
  then show "useValue_NOTIFICATION_HANDLER_MAP (provideMediator md handlers) n
               = Some (notification_declarers md n handlers)"
    by (cases "notification_declarers md n handlers")
       (simp_all add: useValue_notification_provideMediator notification_map_lookup)
qed

theorem registration_round_trip_witness:
  "request_declarers suite_metadata TestRequest
      [TestRequestHandler, AnotherTestRequestHandler, TestNotificationHandler,
       AnotherTestNotificationHandler, YetAnotherNotificationHandler, NonHandlerClass]
     = [TestRequestHandler]
   \<and> useValue_REQUEST_HANDLER_MAP (provideMediator suite_metadata
      [TestRequestHandler, AnotherTestRequestHandler, TestNotificationHandler,
       AnotherTestNotificationHandler, YetAnotherNotificationHandler, NonHandlerClass])
      TestRequest = Some TestRequestHandler
   \<and> useValue_REQUEST_HANDLER_MAP (provideMediator suite_metadata
      [TestRequestHandler, AnotherTestRequestHandler, TestNotificationHandler,
       AnotherTestNotificationHandler, YetAnotherNotificationHandler, NonHandlerClass])
      AnotherTestRequest = Some AnotherTestRequestHandler
   \<and> useValue_NOTIFICATION_HANDLER_MAP (provideMediator suite_metadata
      [TestRequestHandler, AnotherTestRequestHandler, TestNotificationHandler,
       AnotherTestNotificationHandler, YetAnotherNotificationHandler, NonHandlerClass])
      TestNotification = Some [TestNotificationHandler, AnotherTestNotificationHandler]
   \<and> useValue_NOTIFICATION_HANDLER_MAP (provideMediator suite_metadata
      [TestRequestHandler, AnotherTestRequestHandler, TestNotificationHandler,
       AnotherTestNotificationHandler, YetAnotherNotificationHandler, NonHandlerClass])
      AnotherTestNotification = Some [YetAnotherNotificationHandler]"
  using registration_round_trip [of
      "[TestRequestHandler, AnotherTestRequestHandler, TestNotificationHandler,
       AnotherTestNotificationHandler, YetAnotherNotificationHandler, NonHandlerClass]"
      suite_metadata]
  apply (simp add: suite_request_metadata suite_notification_metadata
       notification_declarers_def request_declarers_def)
  apply (simp add: fixture_classes)
  done

text \<open>
  C9.  The builder reads the two kinds of metadata of a class independently.  For a
  class \<open>c\<close> that carries both a request type \<open>r\<close> and a notification type \<open>n\<close>, one
  step of the loop enters \<open>c\<close> in both maps: as the handler of \<open>r\<close>, and at the end of the
  handler list of \<open>n\<close>.  In the maps that \<open>provideMediator\<close> returns, \<open>c\<close> then stands in
  the list of \<open>n\<close> at its place in input order, and is the handler of \<open>r\<close> unless a later
  class of the list declares \<open>r\<close> too.
\<close>

theorem both_metadata_both_registries:
  assumes "getMetadata REQUEST_HANDLER_METADATA_KEY c md = Some r"
    and "getMetadata NOTIFICATION_HANDLER_METADATA_KEY c md = Some n"
    and "list_all (\<lambda>d. getMetadata REQUEST_HANDLER_METADATA_KEY d md \<noteq> Some r) after"
  shows "registerHandler md (hm, nm) c
           = (hm(r \<mapsto> c), nm(n \<mapsto> (case nm n of Some l \<Rightarrow> l | None \<Rightarrow> []) @ [c]))
       \<and> useValue_REQUEST_HANDLER_MAP (provideMediator md (before @ c # after)) r = Some c
       \<and> useValue_NOTIFICATION_HANDLER_MAP (provideMediator md (before @ c # after)) n
           = Some (notification_declarers md n before @ c # notification_declarers md n after)"
proof (intro conjI)
  show "registerHandler md (hm, nm) c
          = (hm(r \<mapsto> c), nm(n \<mapsto> (case nm n of Some l \<Rightarrow> l | None \<Rightarrow> []) @ [c]))"
    using assms(1,2) by (simp add: registerHandler_def Let_def)
  show "useValue_REQUEST_HANDLER_MAP (provideMediator md (before @ c # after)) r = Some c"
    using request_map_last_declarer [OF assms(1) assms(3)]
    by (simp add: useValue_request_provideMediator)
  have "notification_declarers md n (before @ c # after)
          = notification_declarers md n before @ c # notification_declarers md n after"
    using assms(2) by (simp add: notification_declarers_def)
  then show "useValue_NOTIFICATION_HANDLER_MAP (provideMediator md (before @ c # after)) n
          = Some (notification_declarers md n before @ c # notification_declarers md n after)"
    by (cases "notification_declarers md n before")
       (simp_all add: useValue_notification_provideMediator notification_map_lookup)
qed

theorem both_metadata_both_registries_witness:
  "getMetadata REQUEST_HANDLER_METADATA_KEY AuditHandler suite_metadata = Some AnotherTestRequest
   \<and> getMetadata NOTIFICATION_HANDLER_METADATA_KEY AuditHandler suite_metadata
       = Some TestNotification
   \<and> fst (registerHandler suite_metadata (Map.empty, Map.empty) AuditHandler) AnotherTestRequest
       = Some AuditHandler
   \<and> snd (registerHandler suite_metadata (Map.empty, Map.empty) AuditHandler) TestNotification
       = Some [AuditHandler]
   \<and> useValue_REQUEST_HANDLER_MAP
        (provideMediator suite_metadata
           [TestNotificationHandler, AuditHandler, AnotherTestNotificationHandler])
        AnotherTestRequest = Some AuditHandler
   \<and> useValue_NOTIFICATION_HANDLER_MAP
        (provideMediator suite_metadata
           [TestNotificationHandler, AuditHandler, AnotherTestNotificationHandler])
        TestNotification
       = Some [TestNotificationHandler, AuditHandler, AnotherTestNotificationHandler]"
  using both_metadata_both_registries [of AuditHandler suite_metadata AnotherTestRequest
      TestNotification "[AnotherTestNotificationHandler]" Map.empty Map.empty
      "[TestNotificationHandler]"]
  by (simp add: suite_request_metadata suite_notification_metadata notification_declarers_def)

section \<open>Properties of dispatch\<close>

lemma pipeline_Nil: "pipeline request [] handle = handle"
  by (simp add: pipeline_def)

lemma pipeline_Cons:
  "pipeline request (b # bs) handle = b request (pipeline request bs handle)"
  by (simp add: pipeline_def)

lemma pipeline_append:
  "pipeline request (bs @ cs) handle = pipeline request bs (pipeline request cs handle)"
  by (simp add: pipeline_def)

lemma around_returns_continuation_result:
  "returns_continuation_result (around pre post) request pre (\<lambda>t r t'. post t')"
  by (simp add: returns_continuation_result_def around_def)

lemma LoggingBehavior_returns_continuation_result:
  "returns_continuation_result LoggingBehavior request
     (LoggingBehavior_before request) (LoggingBehavior_after request)"
  by (simp add: returns_continuation_result_def LoggingBehavior_def
        LoggingBehavior_before_def LoggingBehavior_after_def)

lemma pipeline_pass_through:
  assumes "pass_through bs request pqs"
    and "next (logic_before pqs t) = (Inr r, t')"
  shows "pipeline request bs next t = (Inr r, logic_after pqs t r t')"
  using assms unfolding pass_through_def
proof (induction bs pqs arbitrary: t rule: list_all2_induct)
  case Nil
  then show ?case by (simp add: pipeline_Nil)
next
  case (Cons b bs pq pqs)
  from Cons.prems have "next (logic_before pqs (fst pq t)) = (Inr r, t')"
    by simp
  then have inner: "pipeline request bs next (fst pq t)
                      = (Inr r, logic_after pqs (fst pq t) r t')"
    by (rule Cons.IH)
  from Cons.hyps(1) inner
  have "b request (pipeline request bs next) t
          = (Inr r, snd pq t r (logic_after pqs (fst pq t) r t'))"
    by (simp add: returns_continuation_result_def)
  then show ?case by (simp add: pipeline_Cons)
qed

lemma getHandler_found:
  assumes "requestHandlerMap m (ctor request) = Some handlerType"
    and "injector m handlerType s = (Inr handler, s0)"
  shows "getHandler m request s = (Inr handler, s0)"
  using assms by (simp add: getHandler_def)

lemma publish_forEach_append:
  "publish_forEach m notification (xs @ ys) s =
     (case publish_forEach m notification xs s of
        (Inl e, s') \<Rightarrow> (Inl e, s')
      | (Inr u, s') \<Rightarrow> publish_forEach m notification ys s')"
  by (induction xs arbitrary: s) (simp_all split: prod.splits sum.splits)

lemmas suite_classes =
  fixture_classes SyncRequest_def AsyncObservableRequest_def AsyncPromiseRequest_def
  UnhandledRequest_def AnotherNotification_def SyncRequestHandler_def
  AsyncObservableRequestHandler_def AsyncPromiseRequestHandler_def
  FailingNotificationHandler_def

text \<open>
  C1.  For a request whose runtime type is mapped to a handler that the injector resolves
  and that returns an immediate value \<open>V\<close>, and with registered pipeline behaviors each
  of which returns its continuation's result (it may run logic of its own before the
  call of the continuation and after its return, depending on the request and on the
  result; in particular with no behavior registered): \<open>send\<close> returns an observable that
  emits exactly \<open>V\<close> once and completes, \<open>sendAsync\<close> returns a promise resolved to \<open>V\<close>,
  and \<open>sendSimple\<close> returns \<open>V\<close> itself.  The condition on the behaviors is needed: a
  behavior stands between the handler and the caller and may return something else, as
  the redacting behavior below does.
\<close>

theorem synchronous_handler_value:
  assumes "requestHandlerMap m (ctor request) = Some handlerType"
    and "injector m handlerType s = (Inr handler, s0)"
    and "pass_through (behaviors_of m) request pqs"
    and "handler request (logic_before pqs s0) = (Inr (Value V), s1)"
  shows "send m request s
           = (Inr (ObservableOf (Observable [V] Completes)),
              logic_after pqs s0 (ObservableOf (Observable [V] Completes)) s1)
       \<and> sendAsync m request s
           = (Inr (Resolved V), logic_after pqs s0 (ObservableOf (Observable [V] Completes)) s1)
       \<and> sendSimple m request s = (Inr (Value V), logic_after pqs s0 (Value V) s1)"
proof -
  note found = getHandler_found [OF assms(1) assms(2)]
  have "send_handle handler request (logic_before pqs s0)
          = (Inr (ObservableOf (Observable [V] Completes)), s1)"
    using assms(4) by (simp add: send_handle_def of_rx_def)
  with assms(3)
  have "pipeline request (behaviors_of m) (send_handle handler request) s0
          = (Inr (ObservableOf (Observable [V] Completes)),
             logic_after pqs s0 (ObservableOf (Observable [V] Completes)) s1)"
    by (rule pipeline_pass_through)
  then have snd: "send m request s
               = (Inr (ObservableOf (Observable [V] Completes)),
                  logic_after pqs s0 (ObservableOf (Observable [V] Completes)) s1)"
    by (simp add: send_def found)
  moreover have "sendAsync m request s
           = (Inr (Resolved V), logic_after pqs s0 (ObservableOf (Observable [V] Completes)) s1)"
    by (simp add: sendAsync_def snd)
  moreover have "sendSimple m request s = (Inr (Value V), logic_after pqs s0 (Value V) s1)"
  proof -
    from assms(3) assms(4)
    have "pipeline request (behaviors_of m) (handler request) s0
            = (Inr (Value V), logic_after pqs s0 (Value V) s1)"
      by (rule pipeline_pass_through)
    then show ?thesis by (simp add: sendSimple_def found)
  qed
  ultimately show ?thesis by simp
qed

theorem synchronous_handler_value_witness:
  "requestHandlerMap (suite_mediator [LoggingBehavior, behavior2]) (ctor (new_obj SyncRequest))
     = Some SyncRequestHandler
   \<and> send (suite_mediator [LoggingBehavior, behavior2]) (new_obj SyncRequest) []
       = (Inr (ObservableOf (Observable [''sync response''] Completes)),
          [''get SyncRequestHandler'', ''[LoggingBehavior] Handling request: SyncRequest'',
           ''behavior2 start'', ''handler called'', ''behavior2 end'',
           ''[LoggingBehavior] Finished handling request: SyncRequest''])
   \<and> sendAsync (suite_mediator [LoggingBehavior, behavior2]) (new_obj SyncRequest) []
       = (Inr (Resolved ''sync response''),
          [''get SyncRequestHandler'', ''[LoggingBehavior] Handling request: SyncRequest'',
           ''behavior2 start'', ''handler called'', ''behavior2 end'',
           ''[LoggingBehavior] Finished handling request: SyncRequest''])
   \<and> sendSimple (suite_mediator [LoggingBehavior, behavior2]) (new_obj SyncRequest) []
       = (Inr (Value ''sync response''),
          [''get SyncRequestHandler'', ''[LoggingBehavior] Handling request: SyncRequest'',
           ''behavior2 start'', ''handler called'', ''behavior2 end'',
           ''[LoggingBehavior] Finished handling request: SyncRequest''])"
proof -
  let ?m = "suite_mediator [LoggingBehavior, behavior2]"
  let ?pqs = "[(LoggingBehavior_before (new_obj SyncRequest),
                LoggingBehavior_after (new_obj SyncRequest)),
               (\<lambda>callOrder. callOrder @ [''behavior2 start''],
                \<lambda>t (r :: (string, string) response) callOrder. callOrder @ [''behavior2 end''])]"
  have 1: "requestHandlerMap ?m (ctor (new_obj SyncRequest)) = Some SyncRequestHandler"
    by (simp add: suite_mediator_def new_obj_def suite_classes)
  have 2: "injector ?m SyncRequestHandler []
             = (Inr SyncRequestHandler_handle, [''get SyncRequestHandler''])"
    by (simp add: suite_mediator_def TestBed_get_def)
  have 3: "pass_through (behaviors_of ?m) (new_obj SyncRequest) ?pqs"
    by (simp add: pass_through_def behaviors_of_def suite_mediator_def behavior2_def
          around_returns_continuation_result LoggingBehavior_returns_continuation_result)
  have 4: "SyncRequestHandler_handle (new_obj SyncRequest)
             (logic_before ?pqs [''get SyncRequestHandler''])
           = (Inr (Value ''sync response''),
              [''get SyncRequestHandler'', ''[LoggingBehavior] Handling request: SyncRequest'',
               ''behavior2 start'', ''handler called''])"
    by (simp add: SyncRequestHandler_handle_def LoggingBehavior_before_def new_obj_def
          SyncRequest_def)
  show ?thesis
    using synchronous_handler_value [OF 1 2 3 4] 1
    by (simp add: LoggingBehavior_before_def LoggingBehavior_after_def new_obj_def
          SyncRequest_def)
qed

theorem transforming_behavior_counterexample:
  "requestHandlerMap (suite_mediator [redactingBehavior]) (ctor (new_obj SyncRequest))
     = Some SyncRequestHandler
   \<and> fst (TestBed_get SyncRequestHandler []) = Inr SyncRequestHandler_handle
   \<and> fst (SyncRequestHandler_handle (new_obj SyncRequest) [''get SyncRequestHandler''])
       = Inr (Value ''sync response'')
   \<and> fst (send (suite_mediator [redactingBehavior]) (new_obj SyncRequest) [])
       \<noteq> Inr (ObservableOf (Observable [''sync response''] Completes))
   \<and> send (suite_mediator [redactingBehavior]) (new_obj SyncRequest) []
       = (Inr (ObservableOf (Observable [''redacted''] Completes)),
          [''get SyncRequestHandler'', ''handler called''])
   \<and> sendAsync (suite_mediator [redactingBehavior]) (new_obj SyncRequest) []
       = (Inr (Resolved ''redacted''), [''get SyncRequestHandler'', ''handler called''])
   \<and> sendSimple (suite_mediator [redactingBehavior]) (new_obj SyncRequest) []
       = (Inr (Value ''redacted''), [''get SyncRequestHandler'', ''handler called''])"
  by (simp add: send_def sendAsync_def sendSimple_def getHandler_def behaviors_of_def
        pipeline_def send_handle_def of_rx_def suite_mediator_def new_obj_def TestBed_get_def
        SyncRequestHandler_handle_def redactingBehavior_def suite_classes)

text \<open>
  C2.  For a request whose runtime type has no entry in the request-handler map, \<open>send\<close>
  and \<open>sendSimple\<close> throw, at the call, an error whose message is
  \<open>No handler found for request: \<close> followed by the name of the request's class, and
  nothing has run.  \<open>sendAsync\<close>, being an \<open>async\<close> method, does not throw: it returns a
  promise rejected with that same error.
\<close>

theorem handler_not_found:
  assumes "requestHandlerMap m (ctor request) = None"
  shows "send m request s
           = (Inl (Error (''No handler found for request: '' @ class_name (ctor request))), s)
       \<and> sendSimple m request s
           = (Inl (Error (''No handler found for request: '' @ class_name (ctor request))), s)
       \<and> sendAsync m request s
           = (Inr (Rejected
                (Error (''No handler found for request: '' @ class_name (ctor request)))), s)"
  using assms by (simp add: send_def sendSimple_def sendAsync_def getHandler_def)

theorem handler_not_found_witness:
  "requestHandlerMap (suite_mediator []) (ctor (new_obj UnhandledRequest)) = None
   \<and> send (suite_mediator []) (new_obj UnhandledRequest) []
       = (Inl (Error ''No handler found for request: UnhandledRequest''), [])
   \<and> sendSimple (suite_mediator []) (new_obj UnhandledRequest) []
       = (Inl (Error ''No handler found for request: UnhandledRequest''), [])
   \<and> sendAsync (suite_mediator []) (new_obj UnhandledRequest) []
       = (Inr (Rejected (Error ''No handler found for request: UnhandledRequest'')), [])"
  using handler_not_found [of "suite_mediator []" "new_obj UnhandledRequest" "[]"]
  by (simp add: suite_mediator_def new_obj_def suite_classes)

theorem sendAsync_not_found_counterexample:
  "requestHandlerMap (suite_mediator []) (ctor (new_obj UnhandledRequest)) = None
   \<and> fst (sendAsync (suite_mediator []) (new_obj UnhandledRequest) [])
       \<noteq> Inl (Error ''No handler found for request: UnhandledRequest'')
   \<and> fst (sendAsync (suite_mediator []) (new_obj UnhandledRequest) [])
       = Inr (Rejected (Error ''No handler found for request: UnhandledRequest''))"
  by (simp add: sendAsync_def send_def getHandler_def suite_mediator_def new_obj_def
        suite_classes)

text \<open>
  C3.  With behaviors \<open>[B1, B2]\<close> registered in that order and the resolved handler \<open>H\<close>,
  \<open>send\<close> runs \<open>B1\<close> on the original request with the continuation that runs \<open>B2\<close> on the
  original request with the continuation that runs \<open>H\<close> (the right-fold nesting).  When
  both behaviors have logic before and after the call of their continuation, the order
  of execution is: \<open>B1\<close> before, \<open>B2\<close> before, \<open>H\<close>, \<open>B2\<close> after, \<open>B1\<close> after.  A behavior
  whose result does not depend on its continuation (it does not call it) cuts off
  everything downstream: the outcome is that of the behaviors before it, run around its
  own answer, whatever the later behaviors and the handler are.
\<close>

theorem pipeline_nesting_order:
  assumes "requestHandlerMap m (ctor request) = Some handlerType"
    and "injector m handlerType s = (Inr H, s0)"
  shows "(pipelineBehaviors m = Some [B1, B2] \<longrightarrow>
            send m request s = raised (B1 request (B2 request (send_handle H request)) s0))
       \<and> (pipelineBehaviors m = Some [around pre1 post1, around pre2 post2]
            \<and> H request (pre2 (pre1 s0)) = (Inr result, s1) \<longrightarrow>
            send m request s = (Inr (normalize result), post1 (post2 s1)))
       \<and> (pipelineBehaviors m = Some (outer @ B # inner)
            \<and> (\<forall>next. B request next = answer) \<longrightarrow>
            send m request s = raised (pipeline request outer answer s0))"
proof -
  note found = getHandler_found [OF assms]
  have a: "send m request s = raised (B1 request (B2 request (send_handle H request)) s0)"
    if "pipelineBehaviors m = Some [B1, B2]" for B1 B2
    using that by (simp add: send_def found behaviors_of_def pipeline_Cons pipeline_Nil)
  have b: "send m request s = (Inr (normalize result), post1 (post2 s1))"
    if "pipelineBehaviors m = Some [around pre1 post1, around pre2 post2]"
      and "H request (pre2 (pre1 s0)) = (Inr result, s1)"
    using that by (simp add: a around_def send_handle_def)
  have c: "send m request s = raised (pipeline request outer answer s0)"
    if "pipelineBehaviors m = Some (outer @ B # inner)" and "\<forall>next. B request next = answer"
    using that by (simp add: send_def found behaviors_of_def pipeline_append pipeline_Cons)
  from a b c show ?thesis by blast
qed

theorem pipeline_nesting_order_witness:
  "send (suite_mediator [behavior1, behavior2]) (new_obj SyncRequest) []
     = (Inr (ObservableOf (Observable [''sync response''] Completes)),
        [''get SyncRequestHandler'', ''behavior1 start'', ''behavior2 start'',
         ''handler called'', ''behavior2 end'', ''behavior1 end''])
   \<and> send (suite_mediator [behavior1, cachingBehavior, behavior2]) (new_obj SyncRequest) []
       = (Inr (Value ''cached response''),
          [''get SyncRequestHandler'', ''behavior1 start'', ''cache hit'', ''behavior1 end''])"
proof -
  have found: "requestHandlerMap (suite_mediator bs) (ctor (new_obj SyncRequest))
                 = Some SyncRequestHandler"
    "injector (suite_mediator bs) SyncRequestHandler []
       = (Inr SyncRequestHandler_handle, [''get SyncRequestHandler''])" for bs
    by (simp_all add: suite_mediator_def new_obj_def TestBed_get_def suite_classes)
  have order: "send (suite_mediator [behavior1, behavior2]) (new_obj SyncRequest) []
     = (Inr (ObservableOf (Observable [''sync response''] Completes)),
        [''get SyncRequestHandler'', ''behavior1 start'', ''behavior2 start'',
         ''handler called'', ''behavior2 end'', ''behavior1 end''])"
    using pipeline_nesting_order [OF found [of "[behavior1, behavior2]"],
        where ?pre1.0 = "\<lambda>callOrder. callOrder @ [''behavior1 start'']"
          and ?post1.0 = "\<lambda>callOrder. callOrder @ [''behavior1 end'']"
          and ?pre2.0 = "\<lambda>callOrder. callOrder @ [''behavior2 start'']"
          and ?post2.0 = "\<lambda>callOrder. callOrder @ [''behavior2 end'']"
          and result = "Value ''sync response''"
          and ?s1.0 = "[''get SyncRequestHandler'', ''behavior1 start'', ''behavior2 start'',
                        ''handler called'']"]
    by (simp add: suite_mediator_def behavior1_def behavior2_def SyncRequestHandler_handle_def
          of_rx_def)
  have short: "send (suite_mediator [behavior1, cachingBehavior, behavior2])
                 (new_obj SyncRequest) []
       = (Inr (Value ''cached response''),
          [''get SyncRequestHandler'', ''behavior1 start'', ''cache hit'', ''behavior1 end''])"
    using pipeline_nesting_order [OF found [of "[behavior1, cachingBehavior, behavior2]"],
        where outer = "[behavior1]" and B = cachingBehavior and inner = "[behavior2]"
          and answer = "\<lambda>callOrder.
                (Inr (Value ''cached response''), callOrder @ [''cache hit''])"]
    by (simp add: suite_mediator_def cachingBehavior_def fun_eq_iff pipeline_def behavior1_def
          around_def)
  from order short show ?thesis by simp
qed

text \<open>
  C4.  For a request whose registered handler returns a promise or an observable, and
  with registered pipeline behaviors each of which returns its continuation's result (it
  may run logic of its own before the call of the continuation and after its return,
  depending on the request and on the result; in particular with no behavior
  registered), \<open>sendSimple\<close> throws the error
  \<open>sendSimple can only be used with synchronous handlers\<close>, whatever the promise or
  observable would eventually produce.  The guard looks at what the pipeline returns, so
  the condition on the behaviors is needed: a behavior may turn the handler's
  asynchronous result into an immediate value, as the placeholder behavior below does.
\<close>

theorem asynchronous_result_violates_sendSimple:
  assumes "requestHandlerMap m (ctor request) = Some handlerType"
    and "injector m handlerType s = (Inr handler, s0)"
    and "pass_through (behaviors_of m) request pqs"
    and "handler request (logic_before pqs s0) = (Inr result, s1)"
    and "isObservable result \<or> instanceof_Promise result"
  shows "sendSimple m request s
           = (Inl (Error ''sendSimple can only be used with synchronous handlers''),
              logic_after pqs s0 result s1)"
proof -
  from assms(3) assms(4)
  have "pipeline request (behaviors_of m) (handler request) s0
          = (Inr result, logic_after pqs s0 result s1)"
    by (rule pipeline_pass_through)
  with assms(5) show ?thesis
    by (simp add: sendSimple_def getHandler_found [OF assms(1,2)])
qed

theorem asynchronous_result_violates_sendSimple_witness:
  "requestHandlerMap (suite_mediator [LoggingBehavior]) (ctor (new_obj AsyncPromiseRequest))
     = Some AsyncPromiseRequestHandler
   \<and> instanceof_Promise
        (PromiseOf (Resolved ''async promise response'') :: (string, string) response)
   \<and> sendSimple (suite_mediator [LoggingBehavior]) (new_obj AsyncPromiseRequest) []
       = (Inl (Error ''sendSimple can only be used with synchronous handlers''),
          [''get AsyncPromiseRequestHandler'',
           ''[LoggingBehavior] Handling request: AsyncPromiseRequest'', ''handler called'',
           ''[LoggingBehavior] Finished handling request: AsyncPromiseRequest''])"
proof -
  let ?m = "suite_mediator [LoggingBehavior]"
  let ?pqs = "[(LoggingBehavior_before (new_obj AsyncPromiseRequest),
                LoggingBehavior_after (new_obj AsyncPromiseRequest))]"
  have 1: "requestHandlerMap ?m (ctor (new_obj AsyncPromiseRequest))
             = Some AsyncPromiseRequestHandler"
    by (simp add: suite_mediator_def new_obj_def suite_classes)
  have 2: "injector ?m AsyncPromiseRequestHandler []
             = (Inr AsyncPromiseRequestHandler_handle, [''get AsyncPromiseRequestHandler''])"
    by (simp add: suite_mediator_def TestBed_get_def suite_classes)
  have 3: "pass_through (behaviors_of ?m) (new_obj AsyncPromiseRequest) ?pqs"
    by (simp add: pass_through_def behaviors_of_def suite_mediator_def
          LoggingBehavior_returns_continuation_result)
  have 4: "AsyncPromiseRequestHandler_handle (new_obj AsyncPromiseRequest)
             (logic_before ?pqs [''get AsyncPromiseRequestHandler''])
           = (Inr (PromiseOf (Resolved ''async promise response'')),
              [''get AsyncPromiseRequestHandler'',
               ''[LoggingBehavior] Handling request: AsyncPromiseRequest'',
               ''handler called''])"
    by (simp add: AsyncPromiseRequestHandler_handle_def LoggingBehavior_before_def
          new_obj_def AsyncPromiseRequest_def)
  have 5: "isObservable (PromiseOf (Resolved ''async promise response'')
                           :: (string, string) response)
           \<or> instanceof_Promise (PromiseOf (Resolved ''async promise response'')
                           :: (string, string) response)"
    by simp
  show ?thesis
    using asynchronous_result_violates_sendSimple [OF 1 2 3 4 5] 1
    by (simp add: LoggingBehavior_before_def LoggingBehavior_after_def new_obj_def
          AsyncPromiseRequest_def)
qed

theorem placeholder_behavior_counterexample:
  "requestHandlerMap (suite_mediator [placeholderBehavior]) (ctor (new_obj AsyncPromiseRequest))
     = Some AsyncPromiseRequestHandler
   \<and> fst (TestBed_get AsyncPromiseRequestHandler []) = Inr AsyncPromiseRequestHandler_handle
   \<and> AsyncPromiseRequestHandler_handle (new_obj AsyncPromiseRequest)
         [''get AsyncPromiseRequestHandler'']
       = (Inr (PromiseOf (Resolved ''async promise response'')),
          [''get AsyncPromiseRequestHandler'', ''handler called''])
   \<and> sendSimple (suite_mediator [placeholderBehavior]) (new_obj AsyncPromiseRequest) []
       = (Inr (Value ''loading''), [''get AsyncPromiseRequestHandler'', ''handler called''])
   \<and> fst (sendSimple (suite_mediator [placeholderBehavior]) (new_obj AsyncPromiseRequest) [])
       \<noteq> Inl (Error ''sendSimple can only be used with synchronous handlers'')"
  by (simp add: sendSimple_def getHandler_def behaviors_of_def pipeline_def
        suite_mediator_def new_obj_def TestBed_get_def AsyncPromiseRequestHandler_handle_def
        placeholderBehavior_def suite_classes)

text \<open>
  C5.  For a notification whose runtime type is mapped to the handler list \<open>[H1, H2]\<close>,
  \<open>publish\<close> resolves \<open>H1\<close> and calls its \<open>handle\<close> with the notification, and once that
  call has returned resolves \<open>H2\<close> and calls its \<open>handle\<close> with the same notification;
  the final state is the result of exactly these steps, each taken once, in this order.
  When the \<open>handle\<close> of a handler of the list throws, \<open>publish\<close> ends there with the
  same error: the state is the one the failing call left, so no later handler has been
  resolved or called.
\<close>

theorem publish_in_registration_order:
  "(notificationHandlerMap m (ctor notification) = Some [H1, H2]
      \<and> injector m H1 s = (Inr handler1, s1) \<and> handler1 notification s1 = (Inr result1, s2)
      \<and> injector m H2 s2 = (Inr handler2, s3) \<and> handler2 notification s3 = (Inr result2, s4)
      \<longrightarrow> publish m notification s = (Inr (), s4))
   \<and> (notificationHandlerMap m (ctor notification) = Some (earlier @ H # later)
      \<and> publish_forEach m notification earlier s = (Inr (), t1)
      \<and> injector m H t1 = (Inr handler, t2) \<and> handler notification t2 = (Inl e, t3)
      \<longrightarrow> publish m notification s = (Inl e, t3))"
  by (simp add: publish_def publish_forEach_append)

theorem publish_in_registration_order_witness:
  "publish (suite_mediator []) (new_obj TestNotification) []
     = (Inr (), [''get TestNotificationHandler'', ''TestNotificationHandler.handle'',
                 ''get AnotherTestNotificationHandler'',
                 ''AnotherTestNotificationHandler.handle''])
   \<and> publish (suite_mediator []) (new_obj AnotherTestNotification) []
     = (Inl ''Notification Error'',
        [''get TestNotificationHandler'', ''TestNotificationHandler.handle'',
         ''get FailingNotificationHandler'', ''FailingNotificationHandler.handle''])"
proof -
  have ok: "publish (suite_mediator []) (new_obj TestNotification) []
     = (Inr (), [''get TestNotificationHandler'', ''TestNotificationHandler.handle'',
                 ''get AnotherTestNotificationHandler'',
                 ''AnotherTestNotificationHandler.handle''])"
    using publish_in_registration_order
      [where m = "suite_mediator []" and notification = "new_obj TestNotification"
         and s = "[]" and ?H1.0 = TestNotificationHandler
         and ?H2.0 = AnotherTestNotificationHandler
         and ?handler1.0 = TestNotificationHandler_handle
         and ?handler2.0 = AnotherTestNotificationHandler_handle
         and ?s1.0 = "[''get TestNotificationHandler'']"
         and ?s2.0 = "[''get TestNotificationHandler'', ''TestNotificationHandler.handle'']"
         and ?s3.0 = "[''get TestNotificationHandler'', ''TestNotificationHandler.handle'',
                       ''get AnotherTestNotificationHandler'']"
         and ?s4.0 = "[''get TestNotificationHandler'', ''TestNotificationHandler.handle'',
                       ''get AnotherTestNotificationHandler'',
                       ''AnotherTestNotificationHandler.handle'']"
         and ?result1.0 = "Value ''undefined''" and ?result2.0 = "Value ''undefined''"]
    by (simp add: suite_mediator_def new_obj_def TestBed_get_def
          TestNotificationHandler_handle_def AnotherTestNotificationHandler_handle_def
          suite_classes)
  have failing: "publish (suite_mediator []) (new_obj AnotherTestNotification) []
     = (Inl ''Notification Error'',
        [''get TestNotificationHandler'', ''TestNotificationHandler.handle'',
         ''get FailingNotificationHandler'', ''FailingNotificationHandler.handle''])"
    using publish_in_registration_order
      [where m = "suite_mediator []" and notification = "new_obj AnotherTestNotification"
         and s = "[]" and earlier = "[TestNotificationHandler]"
         and H = FailingNotificationHandler and later = "[AnotherTestNotificationHandler]"
         and handler = FailingNotificationHandler_handle
         and ?t1.0 = "[''get TestNotificationHandler'', ''TestNotificationHandler.handle'']"
         and ?t2.0 = "[''get TestNotificationHandler'', ''TestNotificationHandler.handle'',
                       ''get FailingNotificationHandler'']"
         and ?t3.0 = "[''get TestNotificationHandler'', ''TestNotificationHandler.handle'',
                       ''get FailingNotificationHandler'',
                       ''FailingNotificationHandler.handle'']"
         and e = "''Notification Error''"]
    by (simp add: suite_mediator_def new_obj_def TestBed_get_def
          TestNotificationHandler_handle_def FailingNotificationHandler_handle_def
          suite_classes)
  from ok failing show ?thesis by simp
qed

text \<open>
  C8.  For a notification whose runtime type has no entry in the notification-handler
  map, \<open>publish\<close> returns normally and leaves the state as it was.  This holds for every
  mediator, hence for every injector and every handler, whatever they would do to the
  state: none of them has been run.
\<close>

theorem publish_without_handlers:
  assumes "notificationHandlerMap m (ctor notification) = None"
  shows "publish m notification s = (Inr (), s)"
  using assms by (simp add: publish_def)

theorem publish_without_handlers_witness:
  "notificationHandlerMap (suite_mediator []) (ctor (new_obj AnotherNotification)) = None
   \<and> publish (suite_mediator []) (new_obj AnotherNotification) [] = (Inr (), [])"
  using publish_without_handlers [of "suite_mediator []" "new_obj AnotherNotification" "[]"]
  by (simp add: suite_mediator_def new_obj_def suite_classes)

text \<open>
  C10.  In \<open>sendSimple\<close> the guard comes after the run of the pipeline.  When each
  registered behavior returns its continuation's result and the resolved handler's
  \<open>handle\<close> returns a promise or an observable, the pipeline has returned that result in
  the state reached by the logic of every behavior before its continuation (first to
  last), then the call of the handler's \<open>handle\<close>, then the logic of every behavior after
  its continuation (last to first); \<open>sendSimple\<close> throws its synchronous-only error in
  exactly that state, so all of these effects have taken place and the error does not
  keep the handler from being called.  In general, once the handler is resolved, the
  state \<open>sendSimple\<close> ends in is the state the run of the pipeline ends in, whether the
  guard throws or not.  (This is about what happens up to the return of the \<open>handle\<close>
  calls; what a returned promise or observable does later is not part of the state.  The
  condition on the behaviors is needed: a behavior that answers with a promise without
  calling its continuation makes the guard throw although the handler never ran, as the
  queueing behavior below does.)
\<close>

theorem sendSimple_guard_after_effects:
  assumes "requestHandlerMap m (ctor request) = Some handlerType"
    and "injector m handlerType s = (Inr handler, s0)"
  shows "(pass_through (behaviors_of m) request pqs
            \<and> handler request (logic_before pqs s0) = (Inr result, s1)
            \<and> (isObservable result \<or> instanceof_Promise result) \<longrightarrow>
            pipeline request (behaviors_of m) (handler request) s0
              = (Inr result, logic_after pqs s0 result s1)
          \<and> fst (sendSimple m request s)
              = Inl (Error ''sendSimple can only be used with synchronous handlers'')
          \<and> snd (sendSimple m request s) = logic_after pqs s0 result s1)
       \<and> snd (sendSimple m request s)
           = snd (pipeline request (behaviors_of m) (handler request) s0)"
proof -
  note found = getHandler_found [OF assms]
  have effects: "snd (sendSimple m request s)
                   = snd (pipeline request (behaviors_of m) (handler request) s0)"
    by (simp add: sendSimple_def found split: prod.splits sum.splits)
  have guard: "pipeline request (behaviors_of m) (handler request) s0
              = (Inr result, logic_after pqs s0 result s1)
          \<and> fst (sendSimple m request s)
              = Inl (Error ''sendSimple can only be used with synchronous handlers'')
          \<and> snd (sendSimple m request s) = logic_after pqs s0 result s1"
    if pass: "pass_through (behaviors_of m) request pqs"
      and run: "handler request (logic_before pqs s0) = (Inr result, s1)"
      and async: "isObservable result \<or> instanceof_Promise result"
  proof -
    from pass run
    have "pipeline request (behaviors_of m) (handler request) s0
            = (Inr result, logic_after pqs s0 result s1)"
      by (rule pipeline_pass_through)
    with async show ?thesis by (simp add: sendSimple_def found)
  qed
  from effects guard show ?thesis by blast
qed

theorem sendSimple_guard_after_effects_witness:
  "requestHandlerMap (suite_mediator [LoggingBehavior, behavior2])
     (ctor (new_obj AsyncObservableRequest)) = Some AsyncObservableRequestHandler
   \<and> pipeline (new_obj AsyncObservableRequest)
         (behaviors_of (suite_mediator [LoggingBehavior, behavior2]))
         (AsyncObservableRequestHandler_handle (new_obj AsyncObservableRequest))
         [''get AsyncObservableRequestHandler'']
       = (Inr (ObservableOf (Observable [''async observable response''] Completes)),
          [''get AsyncObservableRequestHandler'',
           ''[LoggingBehavior] Handling request: AsyncObservableRequest'',
           ''behavior2 start'', ''handler called'', ''behavior2 end'',
           ''[LoggingBehavior] Finished handling request: AsyncObservableRequest''])
   \<and> fst (sendSimple (suite_mediator [LoggingBehavior, behavior2])
            (new_obj AsyncObservableRequest) [])
       = Inl (Error ''sendSimple can only be used with synchronous handlers'')
   \<and> snd (sendSimple (suite_mediator [LoggingBehavior, behavior2])
            (new_obj AsyncObservableRequest) [])
       = [''get AsyncObservableRequestHandler'',
          ''[LoggingBehavior] Handling request: AsyncObservableRequest'',
          ''behavior2 start'', ''handler called'', ''behavior2 end'',
          ''[LoggingBehavior] Finished handling request: AsyncObservableRequest'']"
proof -
  let ?m = "suite_mediator [LoggingBehavior, behavior2]"
  let ?pqs = "[(LoggingBehavior_before (new_obj AsyncObservableRequest),
                LoggingBehavior_after (new_obj AsyncObservableRequest)),
               (\<lambda>callOrder. callOrder @ [''behavior2 start''],
                \<lambda>t (r :: (string, string) response) callOrder. callOrder @ [''behavior2 end''])]"
  let ?result = "ObservableOf (Observable [''async observable response''] Completes)
                   :: (string, string) response"
  have 1: "requestHandlerMap ?m (ctor (new_obj AsyncObservableRequest))
             = Some AsyncObservableRequestHandler"
    by (simp add: suite_mediator_def new_obj_def suite_classes)
  have 2: "injector ?m AsyncObservableRequestHandler []
             = (Inr AsyncObservableRequestHandler_handle,
                [''get AsyncObservableRequestHandler''])"
    by (simp add: suite_mediator_def TestBed_get_def suite_classes)
  have 3: "pass_through (behaviors_of ?m) (new_obj AsyncObservableRequest) ?pqs"
    by (simp add: pass_through_def behaviors_of_def suite_mediator_def behavior2_def
          around_returns_continuation_result LoggingBehavior_returns_continuation_result)
  have 4: "AsyncObservableRequestHandler_handle (new_obj AsyncObservableRequest)
             (logic_before ?pqs [''get AsyncObservableRequestHandler''])
           = (Inr ?result,
              [''get AsyncObservableRequestHandler'',
               ''[LoggingBehavior] Handling request: AsyncObservableRequest'',
               ''behavior2 start'', ''handler called''])"
    by (simp add: AsyncObservableRequestHandler_handle_def LoggingBehavior_before_def
          new_obj_def AsyncObservableRequest_def of_rx_def)
  have 5: "isObservable ?result \<or> instanceof_Promise ?result"
    by simp
  show ?thesis
    using sendSimple_guard_after_effects [OF 1 2, of ?pqs ?result
        "[''get AsyncObservableRequestHandler'',
          ''[LoggingBehavior] Handling request: AsyncObservableRequest'',
          ''behavior2 start'', ''handler called'']"] 1 3 4 5
    by (simp add: LoggingBehavior_before_def LoggingBehavior_after_def new_obj_def
          AsyncObservableRequest_def)
qed

theorem queueing_behavior_counterexample:
  "requestHandlerMap (suite_mediator [behavior1, queueingBehavior, behavior2])
     (ctor (new_obj AsyncPromiseRequest)) = Some AsyncPromiseRequestHandler
   \<and> sendSimple (suite_mediator [behavior1, queueingBehavior, behavior2])
        (new_obj AsyncPromiseRequest) []
       = (Inl (Error ''sendSimple can only be used with synchronous handlers''),
          [''get AsyncPromiseRequestHandler'', ''behavior1 start'', ''queued'',
           ''behavior1 end''])
   \<and> ''handler called''
        \<notin> set (snd (sendSimple (suite_mediator [behavior1, queueingBehavior, behavior2])
                        (new_obj AsyncPromiseRequest) []))
   \<and> ''behavior2 start''
        \<notin> set (snd (sendSimple (suite_mediator [behavior1, queueingBehavior, behavior2])
                        (new_obj AsyncPromiseRequest) []))
   \<and> snd (AsyncPromiseRequestHandler_handle (new_obj AsyncPromiseRequest) [])
       = [''handler called'']"
  by (simp add: sendSimple_def getHandler_def behaviors_of_def pipeline_def
        suite_mediator_def new_obj_def TestBed_get_def AsyncPromiseRequestHandler_handle_def
        queueingBehavior_def behavior1_def behavior2_def around_def suite_classes)

end
